theory Spec2Isabelle
  imports Main
begin

section \<open>Python values\<close>

text \<open>
  The exceptions that the modelled code raises or lets through. \<open>UpstreamError\<close> stands
  for whatever a collaborator (the language model, a tool, a remote lookup) raises;
  \<open>GraphRecursionError\<close> is the graph runtime's error when a turn exceeds its step limit.
\<close>

datatype py_error =
    ValueError string
  | TypeError string
  | AttributeError string
  | IndexError string
  | UpstreamError string
  | GraphRecursionError

text \<open>Truthiness of an optional flag and of an optional string (\<open>None\<close> and \<open>""\<close> are falsy).\<close>

fun truthy_flag :: "bool option \<Rightarrow> bool" where
  "truthy_flag None = False"
| "truthy_flag (Some b) = b"

fun truthy_str :: "string option \<Rightarrow> bool" where
  "truthy_str None = False"
| "truthy_str (Some s) = (s \<noteq> [])"

text \<open>\<open>str(x)\<close> of an optional string inside an f-string: \<open>None\<close> prints as the word None.\<close>

fun py_str :: "string option \<Rightarrow> string" where
  "py_str None = ''None''"
| "py_str (Some s) = s"

definition newline :: string where
  "newline = [CHR 0x0A]"

definition quoted :: "string \<Rightarrow> string" where
  "quoted s = CHR 0x22 # s @ [CHR 0x22]"

text \<open>\<open>"\n".join(lines)\<close>.\<close>

fun join_lines :: "string list \<Rightarrow> string" where
  "join_lines [] = []"
| "join_lines [l] = l"
| "join_lines (l # ls) = l @ newline @ join_lines ls"

section \<open>Dialogue state (app/agent/state.py)\<close>

datatype tool_call = ToolCall (tool_name: string) (tool_args: "(string \<times> string) list")

datatype message =
    SystemMessage string
  | HumanMessage string
  | AIMessage string "tool_call list"
  | ToolMessage string

fun content :: "message \<Rightarrow> string" where
  "content (SystemMessage c) = c"
| "content (HumanMessage c) = c"
| "content (AIMessage c calls) = c"
| "content (ToolMessage c) = c"

text \<open>
  \<open>UtilityAgentState\<close>. A key that was never written is absent from the dictionary a node
  receives, and \<open>state.get(key)\<close> is then \<open>None\<close>: every field but \<open>messages\<close> is optional.
  Python floats are kept abstract as the type parameter \<open>'f\<close>. The \<open>llm\<close> entry holds the
  model client; the model is a parameter of the functions that call it.
\<close>

record 'f UtilityAgentState =
  messages :: "message list"
  verified_customer :: "bool option"
  phone_number :: "string option"
  local_data :: "bool option"
  account_id :: "string option"
  registered_address :: "string option"
  customer_name :: "string option"
  balance :: "'f option"
  days_left :: "int option"
  used :: "'f option"
  read_date :: "string option"
  charge_amount :: "'f option"

definition empty_state :: "'f UtilityAgentState" where
  "empty_state =
     \<lparr>messages = [], verified_customer = None, phone_number = None, local_data = None,
      account_id = None, registered_address = None, customer_name = None, balance = None,
      days_left = None, used = None, read_date = None, charge_amount = None\<rparr>"

text \<open>
  One entry of the dictionary a node returns (or of the input of a turn), and its effect on
  the state: \<open>messages\<close> is declared with the \<open>add_messages\<close> reducer, which appends the new
  messages to the history; every other key overwrites.
\<close>

datatype 'f state_write =
    W_messages "message list"
  | W_verified_customer bool
  | W_phone_number string
  | W_local_data bool
  | W_account_id string
  | W_customer_name "string option"
  | W_registered_address "string option"
  | W_balance 'f
  | W_days_left int
  | W_used 'f
  | W_read_date "string option"
  | W_charge_amount 'f

fun apply_write :: "'f state_write \<Rightarrow> 'f UtilityAgentState \<Rightarrow> 'f UtilityAgentState" where
  "apply_write (W_messages ms) s = s\<lparr>messages := messages s @ ms\<rparr>"
| "apply_write (W_verified_customer b) s = s\<lparr>verified_customer := Some b\<rparr>"
| "apply_write (W_phone_number p) s = s\<lparr>phone_number := Some p\<rparr>"
| "apply_write (W_local_data b) s = s\<lparr>local_data := Some b\<rparr>"
| "apply_write (W_account_id a) s = s\<lparr>account_id := Some a\<rparr>"
| "apply_write (W_customer_name n) s = s\<lparr>customer_name := n\<rparr>"
| "apply_write (W_registered_address a) s = s\<lparr>registered_address := a\<rparr>"
| "apply_write (W_balance x) s = s\<lparr>balance := Some x\<rparr>"
| "apply_write (W_days_left d) s = s\<lparr>days_left := Some d\<rparr>"
| "apply_write (W_used x) s = s\<lparr>used := Some x\<rparr>"
| "apply_write (W_read_date d) s = s\<lparr>read_date := d\<rparr>"
| "apply_write (W_charge_amount x) s = s\<lparr>charge_amount := Some x\<rparr>"

fun apply_update :: "'f state_write list \<Rightarrow> 'f UtilityAgentState \<Rightarrow> 'f UtilityAgentState" where
  "apply_update [] s = s"
| "apply_update (w # ws) s = apply_update ws (apply_write w s)"

text \<open>What a node returns: \<open>Command(goto=..., update=...)\<close> or a plain update dictionary.\<close>

datatype 'f node_result =
    Command string "'f state_write list"
  | Update "'f state_write list"

fun update_of :: "'f node_result \<Rightarrow> 'f state_write list" where
  "update_of (Command goto ws) = ws"
| "update_of (Update ws) = ws"

section \<open>The verification table (app/utilities/database.py)\<close>

text \<open>
  The customer directory is the \<open>accounts\<close> table (app/models.py, class Account); only the
  columns the verification code reads are kept. Every column but the primary key is
  nullable. A query \<open>.filter(...).first()\<close> is the first matching row of the list.
\<close>

record Account =
  account_id :: string
  name :: "string option"
  address :: "string option"
  phone :: "string option"

text \<open>
  A row of \<open>phone_verifications\<close>, with the six columns that the INSERT of
  \<open>verify_phone_number\<close> writes. \<open>verified_at\<close> is CURRENT_TIMESTAMP, a number of seconds
  here; \<open>is_active\<close> is the INTEGER flag of the table.
\<close>

record PhoneVerification =
  phone_number :: string
  account_id :: string
  session_id :: "string option"
  verified_at :: nat
  verification_method :: string
  is_active :: int

type_synonym verification_table = "PhoneVerification list"

text \<open>The dictionary that \<open>get_active_phone_verification\<close> builds from the selected row.\<close>

record ActiveVerification =
  av_phone_number :: string
  av_account_id :: string
  av_verified_at :: nat
  av_session_id :: "string option"
  av_verification_method :: string

definition get_customer_by_phone :: "Account list \<Rightarrow> string option \<Rightarrow> Account option" where
  "get_customer_by_phone accounts p = find (\<lambda>a. phone a = p) accounts"

definition active_rows :: "verification_table \<Rightarrow> verification_table" where
  "active_rows table = filter (\<lambda>r. is_active r = 1) table"

text \<open>
  \<open>verify_phone_number(phone_number, session_id)\<close>: the result is the returned flag and
  the table as the session commits it. The branches follow the source: unknown number,
  number already actively verified (early return, nothing written), otherwise
  \<open>DELETE FROM phone_verifications\<close> followed by the INSERT, in one session.
  The SQL statements are taken to execute; a driver error is outside this model.
\<close>

definition verify_phone_number ::
  "Account list \<Rightarrow> nat \<Rightarrow> string \<Rightarrow> string option \<Rightarrow> verification_table
     \<Rightarrow> bool \<times> verification_table" where
  "verify_phone_number accounts now p sid table =
     (case find (\<lambda>a. phone a = Some p) accounts of
        None \<Rightarrow> (False, table)
      | Some customer \<Rightarrow>
          (case find (\<lambda>r. phone_number r = p \<and> is_active r = 1) table of
             Some existing_verification \<Rightarrow> (True, table)
           | None \<Rightarrow>
               (True,
                [\<lparr>phone_number = p, account_id = Account.account_id customer,
                  session_id = sid, verified_at = now,
                  verification_method = ''ui_verification'', is_active = 1\<rparr>])))"

text \<open>
  \<open>ORDER BY verified_at DESC LIMIT 1\<close>: the row with the greatest timestamp; among equal
  timestamps the model takes the earliest row of the table (SQL leaves that choice open).
\<close>

fun most_recent :: "verification_table \<Rightarrow> PhoneVerification option" where
  "most_recent [] = None"
| "most_recent (r # rs) =
     (case most_recent rs of
        None \<Rightarrow> Some r
      | Some r' \<Rightarrow> if verified_at r' > verified_at r then Some r' else Some r)"

definition verification_dict :: "PhoneVerification \<Rightarrow> ActiveVerification" where
  "verification_dict r =
     \<lparr>av_phone_number = phone_number r, av_account_id = PhoneVerification.account_id r,
      av_verified_at = verified_at r, av_session_id = session_id r,
      av_verification_method = verification_method r\<rparr>"

definition get_active_phone_verification :: "verification_table \<Rightarrow> ActiveVerification option" where
  "get_active_phone_verification table = map_option verification_dict (most_recent (active_rows table))"

definition deactivate_phone_verification :: "string \<Rightarrow> verification_table \<Rightarrow> bool \<times> verification_table" where
  "deactivate_phone_verification p table =
     (filter (\<lambda>r. phone_number r = p) table \<noteq> [],
      map (\<lambda>r. if phone_number r = p then r\<lparr>is_active := 0\<rparr> else r) table)"

definition clear_phone_verifications_by_session :: "string \<Rightarrow> verification_table \<Rightarrow> bool \<times> verification_table" where
  "clear_phone_verifications_by_session sid table =
     (filter (\<lambda>r. session_id r = Some sid) table \<noteq> [],
      filter (\<lambda>r. session_id r \<noteq> Some sid) table)"

definition clear_all_phone_verifications :: "verification_table \<Rightarrow> bool \<times> verification_table" where
  "clear_all_phone_verifications table = (True, [])"

text \<open>
  The calls that the rest of the application makes on the table, and a history of such
  calls run from the empty table that the creation script leaves.
\<close>

datatype db_call =
    Verify nat string "string option"
  | Deactivate string
  | ClearBySession string
  | ClearAll

fun run_call :: "Account list \<Rightarrow> db_call \<Rightarrow> verification_table \<Rightarrow> verification_table" where
  "run_call accounts (Verify now p sid) table = snd (verify_phone_number accounts now p sid table)"
| "run_call accounts (Deactivate p) table = snd (deactivate_phone_verification p table)"
| "run_call accounts (ClearBySession sid) table = snd (clear_phone_verifications_by_session sid table)"
| "run_call accounts ClearAll table = snd (clear_all_phone_verifications table)"

fun run_calls :: "Account list \<Rightarrow> db_call list \<Rightarrow> verification_table \<Rightarrow> verification_table" where
  "run_calls accounts [] table = table"
| "run_calls accounts (c # cs) table = run_calls accounts cs (run_call accounts c table)"

text \<open>Two customers of the directory, for the worked examples.\<close>

definition acct_a :: Account where
  "acct_a = \<lparr>Account.account_id = ''A-100'', name = Some ''Ann Lee'', address = Some ''1 Elm St'',
             phone = Some ''5551234567''\<rparr>"

definition acct_b :: Account where
  "acct_b = \<lparr>Account.account_id = ''B-200'', name = Some ''Bo Ray'', address = None,
             phone = Some ''5559876543''\<rparr>"

section \<open>The graph nodes (app/agent/agent.py)\<close>

text \<open>
  The dictionary that \<open>my_usage\<close> returns when the usage lookup succeeds
  (app/utilities/soap_client.py, \<open>_parse_usage_response\<close>); the lookup returns \<open>None\<close> on an
  HTTP error, a request failure or a response without the expected elements.
\<close>

record 'f usage_data =
  usage_name :: "string option"
  usage_balance :: 'f
  usage_days_left :: int
  usage_used :: 'f
  usage_read_date :: "string option"
  usage_charge_amount :: 'f

text \<open>
  The collaborators of a turn: the model with the tools bound (\<open>llm_with_tools.invoke\<close>),
  the prebuilt tool node, the two legacy lookups, the customer directory, the text of
  \<open>get_system_prompt()\<close> and the clock reading \<open>datetime.utcnow().isoformat()\<close>.
\<close>

record 'f agent_env =
  llm_invoke :: "message list \<Rightarrow> py_error + message"
  tool_node :: "'f UtilityAgentState \<Rightarrow> py_error + message list"
  my_alerts :: "string option \<Rightarrow> string option"
  my_usage :: "string \<Rightarrow> 'f usage_data option"
  customer_directory :: "Account list"
  get_system_prompt :: string
  utcnow_isoformat :: string

text \<open>
  \<open>chatbot(state)\<close>, the entry node. The two locals are read once. The assignment
  \<open>state["verified_customer"] = True\<close> changes the node's own copy of the state and not the
  local \<open>verified_customer\<close>, which the next test reads.
\<close>

definition chatbot :: "'f agent_env \<Rightarrow> 'f UtilityAgentState \<Rightarrow> py_error + 'f node_result" where
  "chatbot env state0 =
     (let verified_customer = verified_customer state0;
          phone_number = UtilityAgentState.phone_number state0;
          state = (if \<not> truthy_flag verified_customer \<and> truthy_str phone_number
                   then state0\<lparr>verified_customer := Some True\<rparr> else state0)
      in if \<not> truthy_flag verified_customer then Inr (Command ''verify_customer'' [])
         else (case llm_invoke env (messages state) of
                 Inl e \<Rightarrow> Inl e
               | Inr response \<Rightarrow> Inr (Update [W_messages [response]])))"

definition greeting :: "string \<Rightarrow> string option \<Rightarrow> string" where
  "greeting system_prompt full_name =
     system_prompt @ newline @ newline @ ''The customer's full name is '' @ py_str full_name @
     ''. Greet them with their first name, and do not use it too often.''"

text \<open>
  \<open>verify_customer(state)\<close>: the legacy lookup first (\<open>my_alerts\<close>, then \<open>my_usage\<close> and the
  subscripts \<open>data['name']\<close>, ... on its result), then the local directory, then the
  unauthenticated fall-through.
\<close>

definition verify_customer :: "'f agent_env \<Rightarrow> 'f UtilityAgentState \<Rightarrow> py_error + 'f node_result" where
  "verify_customer env state =
     (let phone_number = UtilityAgentState.phone_number state;
          system_prompt = get_system_prompt env;
          account_id = my_alerts env phone_number
      in case (if truthy_str account_id then account_id else None) of
           Some found_id \<Rightarrow>
             (case my_usage env found_id of
                None \<Rightarrow> Inl (TypeError ''NoneType object is not subscriptable'')
              | Some data \<Rightarrow>
                  Inr (Command ''chatbot''
                        [W_verified_customer True,
                         W_messages [SystemMessage (greeting system_prompt (usage_name data))],
                         W_local_data False,
                         W_account_id found_id,
                         W_customer_name (usage_name data),
                         W_balance (usage_balance data),
                         W_days_left (usage_days_left data),
                         W_used (usage_used data),
                         W_read_date (usage_read_date data),
                         W_charge_amount (usage_charge_amount data)]))
         | None \<Rightarrow>
             (case get_customer_by_phone (customer_directory env) phone_number of
                Some customer \<Rightarrow>
                  Inr (Command ''chatbot''
                        [W_verified_customer True,
                         W_messages [SystemMessage (greeting system_prompt (name customer))],
                         W_local_data True,
                         W_account_id (Account.account_id customer),
                         W_customer_name (name customer),
                         W_registered_address (address customer)])
              | None \<Rightarrow>
                  Inr (Command ''chatbot''
                        [W_verified_customer False,
                         W_messages [SystemMessage (system_prompt @ newline @ newline @
                           ''Customer verification will be handled through phone number verification.'')]])))"

section \<open>The compiled graph and the turn entry point (app/agent/agent.py)\<close>

text \<open>
  \<open>create_utility_agent\<close> builds a graph of three nodes (\<open>verify_customer\<close>, \<open>chatbot\<close>,
  \<open>tools\<close>) with entry point \<open>chatbot\<close>, the conditional edge \<open>tools_condition\<close> out of
  \<open>chatbot\<close> and the edge from \<open>tools\<close> to \<open>chatbot\<close>, and compiles it with the SQLite
  checkpointer. The functions of this section model how the graph library runs that graph,
  as its documentation describes it: the input is merged into the thread's latest
  checkpoint, nodes run one step at a time, the checkpointer stores the state after the
  input and after every completed step, a failing node raises out of \<open>stream\<close>, and a turn
  of more than \<open>recursion_limit\<close> steps raises \<open>GraphRecursionError\<close>.
\<close>

type_synonym 'f checkpoint_table = "string \<Rightarrow> 'f UtilityAgentState option"

definition END :: string where
  "END = ''__end__''"

definition recursion_limit :: nat where
  "recursion_limit = 25"

text \<open>\<open>tools_condition\<close>: to the tool node when the last message is a model message with tool calls.\<close>

definition tools_condition :: "'f UtilityAgentState \<Rightarrow> string" where
  "tools_condition state =
     (case rev (messages state) of
        AIMessage c calls # earlier \<Rightarrow> if calls \<noteq> [] then ''tools'' else END
      | _ \<Rightarrow> END)"

definition run_node :: "'f agent_env \<Rightarrow> string \<Rightarrow> 'f UtilityAgentState \<Rightarrow> py_error + 'f node_result" where
  "run_node env node state =
     (if node = ''chatbot'' then chatbot env state
      else if node = ''verify_customer'' then verify_customer env state
      else if node = ''tools'' then
        (case tool_node env state of Inl e \<Rightarrow> Inl e | Inr ms \<Rightarrow> Inr (Update [W_messages ms]))
      else Inl (ValueError ''unknown node''))"

fun next_node :: "string \<Rightarrow> 'f node_result \<Rightarrow> 'f UtilityAgentState \<Rightarrow> string" where
  "next_node node (Command goto ws) state = goto"
| "next_node node (Update ws) state =
     (if node = ''chatbot'' then tools_condition state
      else if node = ''tools'' then ''chatbot''
      else END)"

text \<open>
  The run loop: the result of the turn (the last streamed state, or the error raised) and
  the checkpoint table as the turn leaves it. The first argument counts the steps left.
\<close>

fun run_graph ::
  "nat \<Rightarrow> 'f agent_env \<Rightarrow> string \<Rightarrow> string \<Rightarrow> 'f UtilityAgentState \<Rightarrow> 'f checkpoint_table
     \<Rightarrow> (py_error + 'f UtilityAgentState) \<times> 'f checkpoint_table" where
  "run_graph 0 env thread_id node state table =
     (if node = END then (Inr state, table) else (Inl GraphRecursionError, table))"
| "run_graph (Suc steps) env thread_id node state table =
     (if node = END then (Inr state, table)
      else (case run_node env node state of
              Inl e \<Rightarrow> (Inl e, table)
            | Inr result \<Rightarrow>
                (let state' = apply_update (update_of result) state
                 in run_graph steps env thread_id (next_node node result state') state'
                      (table(thread_id \<mapsto> state')))))"


definition load :: "'f checkpoint_table \<Rightarrow> string \<Rightarrow> 'f UtilityAgentState" where
  "load table thread_id = (case table thread_id of None \<Rightarrow> empty_state | Some state \<Rightarrow> state)"

definition graph_stream ::
  "'f agent_env \<Rightarrow> 'f state_write list \<Rightarrow> string \<Rightarrow> 'f checkpoint_table
     \<Rightarrow> (py_error + 'f UtilityAgentState) \<times> 'f checkpoint_table" where
  "graph_stream env input thread_id table =
     (let state = apply_update input (load table thread_id)
      in run_graph recursion_limit env thread_id ''chatbot'' state (table(thread_id \<mapsto> state)))"

text \<open>
  The persistent store behind the agent: the checkpoint table of the checkpointer and the
  \<open>ttl\<close> table (\<open>thread_id\<close>, \<open>last_message_time\<close>), one row per thread.
\<close>

record 'f agent_store =
  checkpoints :: "'f checkpoint_table"
  ttl :: "(string \<times> string option) list"

text \<open>\<open>INSERT ... ON CONFLICT(thread_id) DO UPDATE SET last_message_time = excluded.last_message_time\<close>.\<close>

fun upsert_ttl :: "string \<Rightarrow> string \<Rightarrow> (string \<times> string option) list \<Rightarrow> (string \<times> string option) list" where
  "upsert_ttl thread_id t [] = [(thread_id, Some t)]"
| "upsert_ttl thread_id t ((k, v) # rows) =
     (if k = thread_id then (k, Some t) # rows else (k, v) # upsert_ttl thread_id t rows)"

definition placeholder :: string where
  "placeholder = ''ignore this message. Dont reply to this message''"

text \<open>The dictionary handed to \<open>graph.stream\<close> (its \<open>llm\<close> entry is the model client).\<close>

definition turn_input :: "string option \<Rightarrow> string \<Rightarrow> 'f state_write list" where
  "turn_input user_input phone_no =
     [W_messages [HumanMessage (if truthy_str user_input then py_str user_input else placeholder)],
      W_phone_number phone_no]"

text \<open>
  \<open>process_message(user_input, phone_number, session_id)\<close>: the reply or the exception
  raised, and the store afterwards. The session id is the thread id of the graph run. The reply is the content of the last message of the
  last streamed state; the \<open>ttl\<close> row is written after the stream has ended.
\<close>

definition process_message ::
  "'f agent_env \<Rightarrow> string option \<Rightarrow> string option \<Rightarrow> string \<Rightarrow> 'f agent_store
     \<Rightarrow> (py_error + string) \<times> 'f agent_store" where
  "process_message env user_input phone_no thread_id store =
     (case (if truthy_str phone_no then phone_no else None) of
        None \<Rightarrow> (Inl (ValueError ''Phone number is required''), store)
      | Some number \<Rightarrow>
          (case graph_stream env (turn_input user_input number) thread_id (checkpoints store) of
             (Inl e, table) \<Rightarrow> (Inl e, store\<lparr>checkpoints := table\<rparr>)
           | (Inr event, table) \<Rightarrow>
               (case rev (messages event) of
                  [] \<Rightarrow> (Inl (IndexError ''list index out of range''), store\<lparr>checkpoints := table\<rparr>)
                | last_message # earlier \<Rightarrow>
                    (Inr (content last_message),
                     \<lparr>checkpoints = table,
                      ttl = upsert_ttl thread_id (utcnow_isoformat env) (ttl store)\<rparr>))))"

section \<open>Clearing and the reaper (app/agent/agent.py)\<close>

text \<open>\<open>clear_memory\<close>: \<open>DELETE FROM checkpoints WHERE thread_id = ?\<close>, committed.\<close>

definition clear_memory :: "string \<Rightarrow> 'f agent_store \<Rightarrow> 'f agent_store" where
  "clear_memory thread_id store = store\<lparr>checkpoints := (checkpoints store)(thread_id := None)\<rparr>"

text \<open>
  Times are microseconds on the naive UTC time line; \<open>fromisoformat\<close> is the parser of the
  stored text, \<open>None\<close> where \<open>datetime.fromisoformat\<close> raises \<open>ValueError\<close>.
\<close>

definition minutes :: "int \<Rightarrow> int" where
  "minutes n = n * 60 * 1000000"

text \<open>
  The loop of \<open>clear_old_checkpoints\<close> over the rows of \<open>ttl\<close>. A row without a time is
  skipped; a row whose text does not parse raises inside the \<open>try\<close> and is logged and
  skipped; a row older than the cutoff has \<open>clear_memory\<close> called on its thread. The last
  component lists the threads \<open>clear_memory\<close> was called on, in order (the source counts
  them in \<open>cleared\<close> and logs each).
\<close>

fun sweep_rows ::
  "(string \<Rightarrow> int option) \<Rightarrow> int \<Rightarrow> (string \<times> string option) list \<Rightarrow> 'f agent_store \<Rightarrow> string list
     \<Rightarrow> 'f agent_store \<times> string list" where
  "sweep_rows fromisoformat stale_cutoff [] store cleared = (store, cleared)"
| "sweep_rows fromisoformat stale_cutoff ((thread_id, last_message_time) # rows) store cleared =
     (case last_message_time of
        None \<Rightarrow> sweep_rows fromisoformat stale_cutoff rows store cleared
      | Some text \<Rightarrow>
          (case fromisoformat text of
             None \<Rightarrow> sweep_rows fromisoformat stale_cutoff rows store cleared
           | Some last_time \<Rightarrow>
               if last_time < stale_cutoff
               then sweep_rows fromisoformat stale_cutoff rows (clear_memory thread_id store)
                      (cleared @ [thread_id])
               else sweep_rows fromisoformat stale_cutoff rows store cleared))"

definition clear_old_checkpoints ::
  "(string \<Rightarrow> int option) \<Rightarrow> int \<Rightarrow> 'f agent_store \<Rightarrow> 'f agent_store \<times> string list" where
  "clear_old_checkpoints fromisoformat now store =
     (let stale_cutoff = now - minutes 45
      in sweep_rows fromisoformat stale_cutoff (ttl store) store [])"

text \<open>
  The staleness test in the words of the specification: the sweep computes
  \<open>now - last_message_time\<close> for a row and the thread is stale when that exceeds the
  45-minute threshold. A row without a readable time is never stale.
\<close>

definition exceeds_threshold :: "(string \<Rightarrow> int option) \<Rightarrow> int \<Rightarrow> string \<times> string option \<Rightarrow> bool" where
  "exceeds_threshold fromisoformat now row =
     (case snd row of
        None \<Rightarrow> False
      | Some text \<Rightarrow>
          (case fromisoformat text of
             None \<Rightarrow> False
           | Some last_message_time \<Rightarrow> now - last_message_time > minutes 45))"

section \<open>Tools (app/agent/tools.py, app/agent/prompts.py)\<close>

text \<open>
  The \<open>billing_info\<close> row (app/models.py, class BillingInfo), with the columns that
  \<open>get_bill_balance\<close> reads; both are nullable.
\<close>

record 'f BillingInfo =
  billing_account_id :: "string option"
  current_balance :: "'f option"

definition get_billing_by_customer_id :: "'f BillingInfo list \<Rightarrow> string option \<Rightarrow> 'f BillingInfo option" where
  "get_billing_by_customer_id billing acct = find (\<lambda>b. billing_account_id b = acct) billing"

text \<open>
  \<open>get_bill_balance(state)\<close>. The parameter \<open>fmt2f\<close> is the float format \<open>:.2f\<close>. Reading
  \<open>.current_balance\<close> of \<open>None\<close> raises \<open>AttributeError\<close>; formatting \<open>None\<close> with \<open>:.2f\<close>
  raises \<open>TypeError\<close>. The last branch of the source cannot be reached.
\<close>

definition get_bill_balance ::
  "('f \<Rightarrow> string) \<Rightarrow> 'f BillingInfo list \<Rightarrow> 'f UtilityAgentState \<Rightarrow> py_error + string" where
  "get_bill_balance fmt2f billing state =
     (let local_data = local_data state
      in if truthy_flag local_data then
           (let account_id = UtilityAgentState.account_id state;
                customer_name = customer_name state
            in case get_billing_by_customer_id billing account_id of
                 None \<Rightarrow> Inl (AttributeError ''NoneType object has no attribute current_balance'')
               | Some billing_info \<Rightarrow>
                   (case current_balance billing_info of
                      None \<Rightarrow> Inl (TypeError ''unsupported format string passed to NoneType.__format__'')
                    | Some amount \<Rightarrow>
                        Inr (''Raw balance: $'' @ fmt2f amount @ newline @ ''Customer: '' @ py_str customer_name)))
         else if \<not> truthy_flag local_data then
           (case balance state of
              None \<Rightarrow> Inl (TypeError ''unsupported format string passed to NoneType.__format__'')
            | Some amount \<Rightarrow> Inr (''Raw balance: $'' @ fmt2f amount))
         else Inr ''No billing information found'')"

subsection \<open>Prompts\<close>

definition get_time_extraction_prompt :: "string \<Rightarrow> string \<Rightarrow> string" where
  "get_time_extraction_prompt user_input current_time =
     join_lines
       [''Extract the outage start time from the following message.'',
        ''    The time can be in various formats:'',
        ''    - Exact time (e.g., '' @ quoted ''2:30 PM'' @ '', '' @ quoted ''14:30'' @ '')'',
        ''    - Relative time (e.g., '' @ quoted ''2 hours ago'' @ '', '' @ quoted ''yesterday'' @ '', '' @ quoted ''3 days ago'' @ '')'',
        ''    - Date and time (e.g., '' @ quoted ''June 4, 2025 at 2:30 PM'' @ '')'',
        [],
        ''    Message: '' @ quoted user_input,
        [],
        ''    Respond with ONLY the extracted time in the format (YYYY-MM-DDTHH:MM:SS)  or '' @ quoted ''absent'' @ '' if not found.'',
        ''    For relative times, calculate the actual time based on the current time. The current time is '' @ current_time @ ''.'',
        ''    '']"

definition extract_address_prompt :: "string \<Rightarrow> string" where
  "extract_address_prompt addr =
     join_lines
       [[],
        ''Extract the address from the user input and format it properly.'',
        [],
        ''The address can be in various formats:'',
        ''- Full street address (e.g., '' @ quoted ''123 Main St, Anytown, USA 12345'' @ '')'',
        ''- Informal description (e.g., '' @ quoted ''the corner of 5th and Elm'' @ '')'',
        [],
        ''Message: '' @ quoted addr,
        [],
        ''IMPORTANT: Return ONLY the address in this exact format: '' @ quoted ''<House Number> <Street>, <City>, <State> <ZIP>, USA'',
        [],
        ''If the user gives address sections separately or in different order, piece them together to form a complete address.'',
        ''Do not modify the address components - just reorder them.'',
        [],
        ''Return ONLY the formatted address string. Do not include:'',
        ''- Explanatory text'',
        ''- Quotes around the address'',
        ''- Multiple lines'',
        ''- Any other text'',
        [],
        ''Example output: '' @ quoted ''123 Main St, Dallas, TX 75201, USA'',
        []]"

subsection \<open>Reporting an outage\<close>

text \<open>
  \<open>str.strip()\<close>: it removes the leading and trailing characters for which \<open>str.isspace\<close>
  holds. The list is the white space of Unicode by code point; a \<open>char\<close> carries a code point
  below 256.
\<close>

definition whitespace_code_points :: "nat list" where
  "whitespace_code_points =
     [0x09, 0x0A, 0x0B, 0x0C, 0x0D, 0x1C, 0x1D, 0x1E, 0x1F, 0x20, 0x85, 0xA0, 0x1680,
      0x2000, 0x2001, 0x2002, 0x2003, 0x2004, 0x2005, 0x2006, 0x2007, 0x2008, 0x2009, 0x200A,
      0x2028, 0x2029, 0x202F, 0x205F, 0x3000]"

definition is_space :: "char \<Rightarrow> bool" where
  "is_space ch = (of_char ch \<in> set whitespace_code_points)"

definition strip :: "string \<Rightarrow> string" where
  "strip s = rev (dropWhile is_space (rev (dropWhile is_space s)))"

text \<open>
  \<open>datetime(year, month, day, hour, minute, second)\<close> and its
  \<open>strftime("%Y-%m-%dT%H:%M:%S")\<close>, with the zero padding of the format.
\<close>

datatype datetime = Datetime nat nat nat nat nat nat

definition digit :: "nat \<Rightarrow> char" where
  "digit d = ''0123456789'' ! (d mod 10)"

definition pad2 :: "nat \<Rightarrow> string" where
  "pad2 n = [digit (n div 10), digit n]"

definition pad4 :: "nat \<Rightarrow> string" where
  "pad4 n = [digit (n div 1000), digit (n div 100), digit (n div 10), digit n]"

fun strftime_iso :: "datetime \<Rightarrow> string" where
  "strftime_iso (Datetime y mo d h mi s) =
     pad4 y @ ''-'' @ pad2 mo @ ''-'' @ pad2 d @ ''T'' @ pad2 h @ '':'' @ pad2 mi @ '':'' @ pad2 s"

text \<open>The keyword arguments of \<open>db_manager.create_outage\<close>.\<close>

record 'f Outage =
  outage_reference_number :: string
  outage_name :: "string option"
  outage_account_id :: "string option"
  outage_nature :: string
  outage_start_time :: int
  outage_address :: "string option"
  outage_latitude :: 'f
  outage_longitude :: 'f
  outage_scale :: string

text \<open>
  The collaborators of \<open>report_outage\<close>: the model (\<open>llm.invoke(prompt).content\<close>, which may
  raise), the address validator (\<open>Some (latitude, longitude)\<close> for a verified address, \<open>None\<close>
  for a falsy first component), \<open>datetime.fromisoformat\<close> (\<open>None\<close> where it raises) and
  \<open>str\<close> of a datetime, the fresh \<open>uuid.uuid4()\<close> and the database call. The tool does not
  read the clock.
\<close>

record 'f outage_env =
  llm_content :: "string \<Rightarrow> py_error + string"
  validate_customer_address :: "string option \<Rightarrow> ('f \<times> 'f) option"
  datetime_fromisoformat :: "string \<Rightarrow> int option"
  datetime_str :: "int \<Rightarrow> string"
  uuid4 :: string
  create_outage :: "'f Outage \<Rightarrow> py_error + string"

text \<open>A function either raises, returns early with a text, or goes on with a value.\<close>

datatype 'a step = Raise py_error | Return string | Continue 'a

text \<open>
  The first \<open>if\<close>/\<open>elif\<close> chain of \<open>report_outage\<close>: the address string to use, with the
  prompts sent to the model on the way.
\<close>

definition outage_address ::
  "'f outage_env \<Rightarrow> 'f UtilityAgentState \<Rightarrow> string option \<Rightarrow> string option
     \<Rightarrow> string option step \<times> string list" where
  "outage_address env state addr address_type =
     (let local_data = local_data state
      in case addr of
           Some given \<Rightarrow>
             (let prompt = extract_address_prompt given
              in case llm_content env prompt of
                   Inl e \<Rightarrow> (Raise e, [prompt])
                 | Inr reply \<Rightarrow> (Continue (Some (strip reply)), [prompt]))
         | None \<Rightarrow>
             if address_type = Some ''registered'' \<and> truthy_flag local_data
             then (Continue (registered_address state), [])
             else if (address_type = Some ''registered'' \<and> \<not> truthy_flag local_data)
                     \<or> address_type = Some ''new''
             then (Return ''Please provide the address where the outage is occurring.'', [])
             else (Return ''Do you want to use your registered address or a different address?'', []))"

text \<open>
  \<open>report_outage(start_time, state, address, address_type)\<close>: what the tool returns or
  raises, and the prompts it sent to the model, in order.
\<close>

definition report_outage ::
  "'f outage_env \<Rightarrow> string \<Rightarrow> 'f UtilityAgentState \<Rightarrow> string option \<Rightarrow> string option
     \<Rightarrow> (py_error + string) \<times> string list" where
  "report_outage env start_time state addr address_type =
     (case outage_address env state addr address_type of
        (Raise e, asked) \<Rightarrow> (Inl e, asked)
      | (Return reply, asked) \<Rightarrow> (Inr reply, asked)
      | (Continue address_string, asked) \<Rightarrow>
          (case validate_customer_address env address_string of
             None \<Rightarrow> (Inr ''Please provide a valid address.'', asked)
           | Some (latitude, longitude) \<Rightarrow>
               (let current_time = strftime_iso (Datetime 2025 7 3 8 0 0);
                    time_prompt = get_time_extraction_prompt start_time current_time
                in case llm_content env time_prompt of
                     Inl e \<Rightarrow> (Inl e, asked @ [time_prompt])
                   | Inr reply \<Rightarrow>
                       (let extracted_time = strip reply
                        in if extracted_time = ''absent''
                           then (Inr ''Could not determine the outage start time. Please provide a clear time reference.'',
                                 asked @ [time_prompt])
                           else (case datetime_fromisoformat env extracted_time of
                                   None \<Rightarrow> (Inl (ValueError ''Invalid isoformat string''), asked @ [time_prompt])
                                 | Some start_time_dt \<Rightarrow>
                                     (case create_outage env
                                             \<lparr>outage_reference_number = ''OUT-'' @ uuid4 env,
                                              outage_name = customer_name state,
                                              outage_account_id = UtilityAgentState.account_id state,
                                              outage_nature = ''Water'',
                                              outage_start_time = start_time_dt,
                                              outage_address = address_string,
                                              outage_latitude = latitude,
                                              outage_longitude = longitude,
                                              outage_scale = ''medium''\<rparr> of
                                        Inl e \<Rightarrow> (Inl e, asked @ [time_prompt])
                                      | Inr reference_number \<Rightarrow>
                                          (Inr (''Reported at '' @ py_str address_string @ ''. Start time: ''
                                                @ datetime_str env start_time_dt @ newline
                                                @ ''Reference number: '' @ reference_number),
                                           asked @ [time_prompt])))))))"

section \<open>Worked examples\<close>

text \<open>
  A thread that was verified through the local directory in an earlier turn, a model that is
  unreachable, and a model that answers in plain text.
\<close>

definition verified_thread :: "int UtilityAgentState" where
  "verified_thread =
     empty_state\<lparr>messages := [HumanMessage ''hello'', SystemMessage ''prompt'', AIMessage ''Hi Ann.'' []],
                 verified_customer := Some True,
                 UtilityAgentState.phone_number := Some ''5551234567'',
                 local_data := Some True,
                 UtilityAgentState.account_id := Some ''A-100'',
                 customer_name := Some ''Ann Lee''\<rparr>"

definition model_down :: "int agent_env" where
  "model_down =
     \<lparr>llm_invoke = (\<lambda>history. Inl (UpstreamError ''connection refused'')),
      tool_node = (\<lambda>state. Inr []),
      my_alerts = (\<lambda>p. None),
      my_usage = (\<lambda>a. None),
      customer_directory = [acct_a, acct_b],
      get_system_prompt = ''prompt'',
      utcnow_isoformat = ''2025-07-03T08:00:00''\<rparr>"

definition model_up :: "int agent_env" where
  "model_up = model_down\<lparr>llm_invoke := (\<lambda>history. Inr (AIMessage ''Sure.'' []))\<rparr>"


text \<open>
  Two threads for the reaper, last active 46 and 10 minutes before the sweep at 08:00, with
  the two time stamps read as microseconds since midnight.
\<close>

definition two_stamps :: "string \<Rightarrow> int option" where
  "two_stamps text =
     (if text = ''2025-07-03T07:14:00'' then Some (minutes 434)
      else if text = ''2025-07-03T07:50:00'' then Some (minutes 470)
      else None)"

definition store_two :: "int agent_store" where
  "store_two =
     \<lparr>checkpoints = (\<lambda>t. None)(''old'' \<mapsto> verified_thread, ''recent'' \<mapsto> empty_state),
      ttl = [(''old'', Some ''2025-07-03T07:14:00''), (''recent'', Some ''2025-07-03T07:50:00'')]\<rparr>"

text \<open>
  An outage report made at 17:45 on 2026-01-15 by a customer who chose the registered
  address. The model of the example takes three hours off whatever current time the prompt
  names: 05:00 on 2025-07-03 for the prompt with 08:00 on 2025-07-03, and 14:45 on
  2026-01-15 for a prompt with the time of the call. Times are microseconds since
  2025-07-03T00:00:00.
\<close>

definition outage_demo :: "int outage_env" where
  "outage_demo =
     \<lparr>llm_content =
        (\<lambda>prompt.
           if prompt = get_time_extraction_prompt ''3 hours ago'' ''2025-07-03T08:00:00''
           then Inr '' 2025-07-03T05:00:00 ''
           else if prompt = get_time_extraction_prompt ''3 hours ago'' ''2026-01-15T17:45:00''
           then Inr '' 2026-01-15T14:45:00 ''
           else Inr ''absent''),
      validate_customer_address = (\<lambda>a. if a = None then None else Some (35, -80)),
      datetime_fromisoformat =
        (\<lambda>stamp. if stamp = ''2025-07-03T05:00:00'' then Some (minutes 300)
                 else if stamp = ''2026-01-15T14:45:00'' then Some (minutes 283125)
                 else None),
      datetime_str =
        (\<lambda>t. if t = minutes 300 then ''2025-07-03 05:00:00''
             else if t = minutes 283125 then ''2026-01-15 14:45:00''
             else ''unknown''),
      uuid4 = ''1234'',
      create_outage = (\<lambda>outage. Inr (outage_reference_number outage))\<rparr>"

definition caller_state :: "int UtilityAgentState" where
  "caller_state = verified_thread\<lparr>registered_address := Some ''1 Elm St, Lexington, NC 27295, USA''\<rparr>"

section \<open>Properties of the graph nodes\<close>

lemma verify_customer_goto:
  assumes "verify_customer env state = Inr result"
  shows "\<exists>ws. result = Command ''chatbot'' ws"
  using assms
  by (auto simp: verify_customer_def Let_def split: option.splits if_splits)

lemma verify_customer_both_fail:
  assumes "my_alerts env (UtilityAgentState.phone_number state) = None"
    and "get_customer_by_phone (customer_directory env) (UtilityAgentState.phone_number state) = None"
  shows "\<exists>m. verify_customer env state = Inr (Command ''chatbot'' [W_verified_customer False, W_messages [m]])"
  using assms by (simp add: verify_customer_def Let_def)

text \<open>
  C1. On a state whose \<open>verified_customer\<close> is false (or was never set) and whose
  \<open>phone_number\<close> is a non-empty string, the entry node \<open>chatbot\<close> does not call the model:
  it returns \<open>Command(goto="verify_customer")\<close>, for every such state and whatever the model
  would answer. The test that routes reads the local \<open>verified_customer\<close>, which the
  assignment above it does not change.
\<close>

theorem chatbot_unverified_with_phone_goes_to_verification:
  "chatbot env (state\<lparr>verified_customer := Some False,
                        UtilityAgentState.phone_number := Some (c # cs)\<rparr>)
     = Inr (Command ''verify_customer'' []) \<and>
   chatbot env (state\<lparr>verified_customer := None,
                        UtilityAgentState.phone_number := Some (c # cs)\<rparr>)
     = Inr (Command ''verify_customer'' [])"
  by (simp add: chatbot_def Let_def)

text \<open>
  C6. When the first legacy lookup finds an account and the usage lookup for that account
  returns \<open>None\<close>, \<open>verify_customer\<close> raises \<open>TypeError\<close> at \<open>data['name']\<close>: it does not
  fall back to the local directory and does not reach the conversation node.
\<close>

theorem verify_customer_raises_without_usage:
  "verify_customer
     (env\<lparr>my_alerts := (\<lambda>p. Some ''A-100''), my_usage := (\<lambda>a. None)\<rparr>) state
     = Inl (TypeError ''NoneType object is not subscriptable'')"
  by (simp add: verify_customer_def Let_def)

section \<open>Properties of the verification table\<close>

subsection \<open>At most one active row\<close>

lemma active_rows_deactivate:
  "active_rows (snd (deactivate_phone_verification p table)) =
     filter (\<lambda>r. phone_number r \<noteq> p) (active_rows table)"
  unfolding active_rows_def deactivate_phone_verification_def
  by (induction table) auto

lemma active_rows_clear_session:
  "active_rows (snd (clear_phone_verifications_by_session sid table)) =
     filter (\<lambda>r. session_id r \<noteq> Some sid) (active_rows table)"
  unfolding active_rows_def clear_phone_verifications_by_session_def
  by (induction table) auto

lemma active_rows_verify_le:
  "length (active_rows table) \<le> 1 \<Longrightarrow>
   length (active_rows (snd (verify_phone_number accounts now p sid table))) \<le> 1"
  by (simp add: verify_phone_number_def active_rows_def split: option.splits)

lemma run_call_le:
  assumes le: "length (active_rows table) \<le> 1"
  shows "length (active_rows (run_call accounts c table)) \<le> 1"
proof (cases c)
  case (Verify now p sid)
  then show ?thesis using active_rows_verify_le [OF le] by simp
next
  case (Deactivate p)
  have "length (filter (\<lambda>r. phone_number r \<noteq> p) (active_rows table)) \<le> length (active_rows table)"
    by (rule length_filter_le)
  with le have "length (filter (\<lambda>r. phone_number r \<noteq> p) (active_rows table)) \<le> 1"
    by (rule order_trans [rotated])
  then show ?thesis using Deactivate by (simp add: active_rows_deactivate)
next
  case (ClearBySession sid)
  have "length (filter (\<lambda>r. session_id r \<noteq> Some sid) (active_rows table)) \<le> length (active_rows table)"
    by (rule length_filter_le)
  with le have "length (filter (\<lambda>r. session_id r \<noteq> Some sid) (active_rows table)) \<le> 1"
    by (rule order_trans [rotated])
  then show ?thesis using ClearBySession by (simp add: active_rows_clear_session)
next
  case ClearAll
  then show ?thesis by (simp add: clear_all_phone_verifications_def active_rows_def)
qed

lemma run_calls_le:
  "length (active_rows table) \<le> 1 \<Longrightarrow> length (active_rows (run_calls accounts cs table)) \<le> 1"
proof (induction cs arbitrary: table)
  case Nil
  then show ?case by simp
next
  case (Cons c cs)
  from Cons.prems have "length (active_rows (run_call accounts c table)) \<le> 1"
    by (rule run_call_le)
  then show ?case using Cons.IH by simp
qed

lemma reachable_le: "length (active_rows (run_calls accounts cs [])) \<le> 1"
  by (rule run_calls_le) (simp add: active_rows_def)

lemma find_active_in_rows:
  "find (\<lambda>r. phone_number r = p \<and> is_active r = 1) table = Some e \<Longrightarrow>
   e \<in> set (active_rows table) \<and> phone_number e = p"
  by (auto simp: active_rows_def find_Some_iff)

lemma singleton_of_le:
  "length xs \<le> 1 \<Longrightarrow> e \<in> set xs \<Longrightarrow> xs = [e]"
  by (cases xs) auto

lemma verify_success_active:
  assumes le: "length (active_rows table) \<le> 1"
    and ok: "verify_phone_number accounts now p sid table = (True, table')"
  shows "\<exists>r. active_rows table' = [r] \<and> phone_number r = p \<and>
             get_active_phone_verification table' = Some (verification_dict r)"
proof -
  obtain customer where c: "find (\<lambda>a. phone a = Some p) accounts = Some customer"
    using ok by (auto simp: verify_phone_number_def split: option.splits)
  show ?thesis
  proof (cases "find (\<lambda>r. phone_number r = p \<and> is_active r = 1) table")
    case None
    with c ok have "table' = [\<lparr>phone_number = p, account_id = Account.account_id customer,
                  session_id = sid, verified_at = now,
                  verification_method = ''ui_verification'', is_active = 1\<rparr>]"
      by (simp add: verify_phone_number_def)
    then show ?thesis
      by (simp add: active_rows_def get_active_phone_verification_def)
  next
    case (Some e)
    with c ok have t: "table' = table" by (simp add: verify_phone_number_def)
    from find_active_in_rows [OF Some]
    have mem: "e \<in> set (active_rows table)" and pe: "phone_number e = p"
      by simp_all
    from le mem have "active_rows table = [e]" by (rule singleton_of_le)
    with t pe show ?thesis by (simp add: get_active_phone_verification_def)
  qed
qed

lemma verify_new_number_replaces:
  assumes "find (\<lambda>r. phone_number r = p \<and> is_active r = 1) table = None"
    and "verify_phone_number accounts now p sid table = (True, table')"
  shows "length table' = 1"
  using assms by (auto simp: verify_phone_number_def split: option.splits)


lemma verify_early_unchanged:
  assumes "find (\<lambda>r. phone_number r = p \<and> is_active r = 1) table = Some e"
    and "verify_phone_number accounts now p sid table = (ok, table')"
  shows "table' = table"
  using assms by (auto simp: verify_phone_number_def split: option.splits)

text \<open>
  C3. Whatever calls were made on the table before (any number of verifications of any
  numbers, deactivations and clears, starting from the empty table), after a call of
  \<open>verify_phone_number\<close> that returns True the table holds exactly one active row, that
  row is the one of the number just verified, and \<open>get_active_phone_verification\<close> returns
  it. When the number had no active row, the table committed by the call is that one new
  row alone: every prior row was deleted in the session that inserted it.
\<close>

theorem verify_phone_number_singleton:
  assumes "verify_phone_number accounts now p sid (run_calls accounts calls []) = (True, table')"
  shows "\<exists>r. active_rows table' = [r] \<and> phone_number r = p \<and>
             get_active_phone_verification table' = Some (verification_dict r) \<and>
             (case find (\<lambda>r. phone_number r = p \<and> is_active r = 1) (run_calls accounts calls []) of
                None \<Rightarrow> table' = [r]
              | Some e \<Rightarrow> table' = run_calls accounts calls [])"
proof -
  let ?t = "run_calls accounts calls []"
  from verify_success_active [OF reachable_le assms]
  obtain r where r: "active_rows table' = [r]" "phone_number r = p"
      "get_active_phone_verification table' = Some (verification_dict r)"
    by blast
  show ?thesis
  proof (cases "find (\<lambda>r. phone_number r = p \<and> is_active r = 1) ?t")
    case None
    from verify_new_number_replaces [OF None assms] obtain x where x: "table' = [x]"
      by (cases table') auto
    with r(1) have "x = r" by (simp add: active_rows_def split: if_splits)
    with x r None show ?thesis by auto
  next
    case (Some e)
    from verify_early_unchanged [OF Some assms] r Some show ?thesis by auto
  qed
qed

theorem verify_phone_number_singleton_witness:
  "verify_phone_number [acct_a, acct_b] 30 ''5551234567'' None
      (run_calls [acct_a, acct_b]
         [Verify 10 ''5551234567'' (Some ''s1''), Verify 20 ''5559876543'' (Some ''s2'')] [])
     = (True, [\<lparr>phone_number = ''5551234567'', account_id = ''A-100'', session_id = None,
                 verified_at = 30, verification_method = ''ui_verification'', is_active = 1\<rparr>])
   \<and> get_active_phone_verification
         [\<lparr>phone_number = ''5551234567'', account_id = ''A-100'', session_id = None,
            verified_at = 30, verification_method = ''ui_verification'', is_active = 1\<rparr>]
       = Some \<lparr>av_phone_number = ''5551234567'', av_account_id = ''A-100'', av_verified_at = 30,
                av_session_id = None, av_verification_method = ''ui_verification''\<rparr>"
proof -
  have run: "verify_phone_number [acct_a, acct_b] 30 ''5551234567'' None
      (run_calls [acct_a, acct_b]
         [Verify 10 ''5551234567'' (Some ''s1''), Verify 20 ''5559876543'' (Some ''s2'')] [])
     = (True, [\<lparr>phone_number = ''5551234567'', account_id = ''A-100'', session_id = None,
                 verified_at = 30, verification_method = ''ui_verification'', is_active = 1\<rparr>])"
    by (simp add: verify_phone_number_def acct_a_def acct_b_def)
  from verify_phone_number_singleton [OF run] run show ?thesis
    by (auto simp: verification_dict_def active_rows_def)
qed





section \<open>Properties of a turn\<close>

subsection \<open>What a graph run leaves in the checkpoint table\<close>

lemma apply_write_messages: "\<exists>rest. messages (apply_write w s) = messages s @ rest"
  by (cases w) simp_all

lemma apply_update_messages: "\<exists>rest. messages (apply_update ws s) = messages s @ rest"
proof (induction ws arbitrary: s)
  case Nil
  then show ?case by simp
next
  case (Cons w ws)
  obtain r1 where r1: "messages (apply_write w s) = messages s @ r1"
    using apply_write_messages by blast
  obtain r2 where "messages (apply_update ws (apply_write w s)) = messages (apply_write w s) @ r2"
    using Cons.IH by blast
  with r1 show ?case by simp
qed

lemma run_graph_keeps:
  "table tid = Some state \<Longrightarrow>
   \<exists>s' rest. snd (run_graph n env tid node state table) tid = Some s' \<and>
             messages s' = messages state @ rest"
proof (induction n arbitrary: node state table)
  case 0
  then show ?case by simp
next
  case (Suc n)
  show ?case
  proof (cases "node = END")
    case True
    with Suc.prems show ?thesis by simp
  next
    case False
    show ?thesis
    proof (cases "run_node env node state")
      case (Inl e)
      with False Suc.prems show ?thesis by simp
    next
      case (Inr result)
      let ?s = "apply_update (update_of result) state"
      let ?t = "table(tid \<mapsto> ?s)"
      have "?t tid = Some ?s" by simp
      from Suc.IH [of ?t ?s "next_node node result ?s", OF this]
      obtain s' rest where s': "snd (run_graph n env tid (next_node node result ?s) ?s ?t) tid = Some s'"
          "messages s' = messages ?s @ rest"
        by blast
      obtain r0 where "messages ?s = messages state @ r0"
        using apply_update_messages by blast
      with s' False Inr show ?thesis by (simp add: Let_def)
    qed
  qed
qed

lemma run_graph_other_threads:
  "t \<noteq> tid \<Longrightarrow> snd (run_graph n env tid node state table) t = table t"
proof (induction n arbitrary: node state table)
  case 0
  then show ?case by simp
next
  case (Suc n)
  show ?case
  proof (cases "run_node env node state")
    case (Inl e)
    then show ?thesis by simp
  next
    case (Inr result)
    with Suc show ?thesis by (simp add: Let_def)
  qed
qed



lemma graph_stream_keeps:
  "\<exists>s' rest. snd (graph_stream env input tid table) tid = Some s' \<and>
             messages s' = messages (apply_update input (load table tid)) @ rest"
  unfolding graph_stream_def Let_def
  by (rule run_graph_keeps) simp

lemma graph_stream_other_threads:
  "t \<noteq> tid \<Longrightarrow> snd (graph_stream env input tid table) t = table t"
  unfolding graph_stream_def Let_def
  by (simp add: run_graph_other_threads)

lemma turn_input_messages:
  "messages (apply_update (turn_input user_input phone_no) s) =
     messages s @ [HumanMessage (if truthy_str user_input then py_str user_input else placeholder)]"
  by (simp add: turn_input_def)

lemma process_message_checkpoints:
  "truthy_str phone_no \<Longrightarrow>
   checkpoints (snd (process_message env user_input phone_no tid store)) =
     snd (graph_stream env (turn_input user_input (the phone_no)) tid (checkpoints store))"
  by (cases phone_no)
     (auto simp: process_message_def split: prod.splits sum.splits list.splits)



text \<open>
  C8. With an absent phone number (\<open>None\<close> or the empty string) \<open>process_message\<close> raises
  \<open>ValueError("Phone number is required")\<close>, the validation error of the entry point, and the
  store is returned as it was: for every user input, session id and store, and whatever
  the model, the tools and the lookups would do, since none of them is consulted.
\<close>

theorem process_message_requires_phone_number:
  "process_message env user_input None thread_id store
     = (Inl (ValueError ''Phone number is required''), store) \<and>
   process_message env user_input (Some []) thread_id store
     = (Inl (ValueError ''Phone number is required''), store)"
  by (simp add: process_message_def)

text \<open>
  C9. When \<open>user_input\<close> is falsy (\<open>None\<close> or the empty string) the message handed to the
  graph is the human message with the literal placeholder text, the turn is the turn of a
  user who typed that text, and the thread's stored history afterwards is the history from
  before the turn followed by that placeholder message (and by whatever the turn added).
\<close>

theorem process_message_placeholder:
  "turn_input None phone_no
     = [W_messages [HumanMessage ''ignore this message. Dont reply to this message''],
        W_phone_number phone_no] \<and>
   turn_input (Some []) phone_no
     = [W_messages [HumanMessage ''ignore this message. Dont reply to this message''],
        W_phone_number phone_no] \<and>
   process_message env None (Some (c # cs)) tid store
     = process_message env (Some ''ignore this message. Dont reply to this message'') (Some (c # cs)) tid store \<and>
   process_message env (Some []) (Some (c # cs)) tid store
     = process_message env (Some ''ignore this message. Dont reply to this message'') (Some (c # cs)) tid store \<and>
   (\<exists>rest. messages (load (checkpoints (snd (process_message env None (Some (c # cs)) tid store))) tid)
      = messages (load (checkpoints store) tid)
        @ HumanMessage ''ignore this message. Dont reply to this message'' # rest) \<and>
   (\<exists>rest. messages (load (checkpoints (snd (process_message env (Some []) (Some (c # cs)) tid store))) tid)
      = messages (load (checkpoints store) tid)
        @ HumanMessage ''ignore this message. Dont reply to this message'' # rest)"
proof -
  have same: "turn_input None phone_no
       = turn_input (Some ''ignore this message. Dont reply to this message'') phone_no"
    "turn_input (Some []) phone_no
       = turn_input (Some ''ignore this message. Dont reply to this message'') phone_no"
    for phone_no :: string
    by (simp_all add: turn_input_def placeholder_def)
  have eq: "process_message env None (Some (c # cs)) tid store
     = process_message env (Some ''ignore this message. Dont reply to this message'') (Some (c # cs)) tid store"
    "process_message env (Some []) (Some (c # cs)) tid store
     = process_message env (Some ''ignore this message. Dont reply to this message'') (Some (c # cs)) tid store"
    by (simp_all add: process_message_def same)
  have hist: "\<exists>rest. messages (load (checkpoints (snd (process_message env ui (Some (c # cs)) tid store))) tid)
      = messages (load (checkpoints store) tid)
        @ HumanMessage ''ignore this message. Dont reply to this message'' # rest"
    if "\<not> truthy_str ui" for ui
  proof -
    have cp: "checkpoints (snd (process_message env ui (Some (c # cs)) tid store))
        = snd (graph_stream env (turn_input ui (c # cs)) tid (checkpoints store))"
      using process_message_checkpoints [of "Some (c # cs)" env ui tid store] by simp
    obtain s' rest where s': "snd (graph_stream env (turn_input ui (c # cs)) tid (checkpoints store)) tid = Some s'"
        "messages s' = messages (apply_update (turn_input ui (c # cs)) (load (checkpoints store) tid)) @ rest"
      using graph_stream_keeps by blast
    from s' cp that show ?thesis
      by (simp add: load_def turn_input_messages placeholder_def)
  qed
  from eq hist [of None] hist [of "Some []"] show ?thesis
    by (simp add: turn_input_def placeholder_def)
qed







section \<open>Properties of the reaper\<close>

lemma clear_memory_fields:
  "ttl (clear_memory t store) = ttl store"
  "checkpoints (clear_memory t store) u = (if u = t then None else checkpoints store u)"
  by (simp_all add: clear_memory_def)

lemma sweep_rows_spec:
  "sweep_rows parse (now - minutes 45) rows store cleared = (store', cleared') \<Longrightarrow>
   cleared' = cleared @ map fst (filter (exceeds_threshold parse now) rows) \<and>
   ttl store' = ttl store \<and>
   (\<forall>t. checkpoints store' t =
          (if t \<in> fst ` set (filter (exceeds_threshold parse now) rows) then None
           else checkpoints store t))"
proof (induction rows arbitrary: store cleared)
  case Nil
  then show ?case by simp
next
  case (Cons row rows)
  obtain thread_id last_message_time where row: "row = (thread_id, last_message_time)"
    by (cases row)
  show ?case
  proof (cases "exceeds_threshold parse now row")
    case True
    then obtain stamp tm where tl: "last_message_time = Some stamp" "parse stamp = Some tm"
        "tm < now - minutes 45"
      using row by (auto simp: exceeds_threshold_def split: option.splits)
    with Cons.prems row
    have "sweep_rows parse (now - minutes 45) rows (clear_memory thread_id store) (cleared @ [thread_id])
            = (store', cleared')"
      by simp
    from Cons.IH [OF this] True row show ?thesis
      by (auto simp: clear_memory_fields)
  next
    case False
    with Cons.prems row
    have "sweep_rows parse (now - minutes 45) rows store cleared = (store', cleared')"
      by (auto simp: exceeds_threshold_def split: option.splits if_splits)
    from Cons.IH [OF this] False show ?thesis by auto
  qed
qed

text \<open>
  C7. One sweep calls \<open>clear_memory\<close> on exactly the threads whose \<open>ttl\<close> row is older than
  45 minutes (\<open>now - last_message_time > 45 min\<close>), in the order of the rows; it deletes the
  checkpoints of those threads, leaves every other checkpoint as it was, and leaves the
  \<open>ttl\<close> table as it was. With rows at now - 46 min and now - 10 min, \<open>clear_memory\<close> is
  called on the first thread only and the second thread's checkpoint is intact.
\<close>

theorem clear_old_checkpoints_clears_exactly_stale:
  assumes "clear_old_checkpoints fromisoformat now store = (store', cleared)"
  shows "cleared = map fst (filter (exceeds_threshold fromisoformat now) (ttl store)) \<and>
         ttl store' = ttl store \<and>
         (\<forall>t. checkpoints store' t = (if t \<in> set cleared then None else checkpoints store t))"
proof -
  from assms have "sweep_rows fromisoformat (now - minutes 45) (ttl store) store [] = (store', cleared)"
    by (simp add: clear_old_checkpoints_def Let_def)
  from sweep_rows_spec [OF this] show ?thesis by simp
qed

theorem clear_old_checkpoints_clears_exactly_stale_witness:
  "two_stamps ''2025-07-03T07:14:00'' = Some (minutes 480 - minutes 46) \<and>
   two_stamps ''2025-07-03T07:50:00'' = Some (minutes 480 - minutes 10) \<and>
   snd (clear_old_checkpoints two_stamps (minutes 480) store_two) = [''old''] \<and>
   checkpoints (fst (clear_old_checkpoints two_stamps (minutes 480) store_two)) ''old'' = None \<and>
   checkpoints (fst (clear_old_checkpoints two_stamps (minutes 480) store_two)) ''recent'' = Some empty_state"
proof -
  have run: "clear_old_checkpoints two_stamps (minutes 480) store_two
      = (fst (clear_old_checkpoints two_stamps (minutes 480) store_two),
         snd (clear_old_checkpoints two_stamps (minutes 480) store_two))"
    by simp
  have stale: "map fst (filter (exceeds_threshold two_stamps (minutes 480)) (ttl store_two)) = [''old'']"
    by (simp add: exceeds_threshold_def two_stamps_def store_two_def minutes_def)
  have before: "checkpoints store_two ''recent'' = Some empty_state"
    by (simp add: store_two_def)
  have stamps: "two_stamps ''2025-07-03T07:14:00'' = Some (minutes 480 - minutes 46)"
    "two_stamps ''2025-07-03T07:50:00'' = Some (minutes 480 - minutes 10)"
    by (simp_all add: two_stamps_def minutes_def)
  from clear_old_checkpoints_clears_exactly_stale [OF run] stale before stamps
  show ?thesis by simp
qed

section \<open>Properties of the tools\<close>

lemma current_time_constant: "strftime_iso (Datetime 2025 7 3 8 0 0) = ''2025-07-03T08:00:00''"
  by (simp add: pad2_def pad4_def digit_def)

text \<open>
  C4. \<open>get_bill_balance\<close> raises instead of returning a text: for a customer verified
  through the local directory who has no \<open>billing_info\<close> row, \<open>billing_info.current_balance\<close>
  is read on \<open>None\<close> (\<open>AttributeError\<close>); for a state without a \<open>balance\<close> snapshot the
  format \<open>:.2f\<close> is applied to \<open>None\<close> (\<open>TypeError\<close>). Neither is caught in the tool.
\<close>

theorem get_bill_balance_raises_without_billing_row:
  "get_bill_balance fmt2f [] (state\<lparr>local_data := Some True\<rparr>)
     = Inl (AttributeError ''NoneType object has no attribute current_balance'') \<and>
   get_bill_balance fmt2f billing (state\<lparr>local_data := Some False, balance := None\<rparr>)
     = Inl (TypeError ''unsupported format string passed to NoneType.__format__'')"
  by (simp add: get_bill_balance_def get_billing_by_customer_id_def Let_def)

text \<open>
  C10. The current time that \<open>report_outage\<close> hands to the model is the text of the
  constant \<open>datetime(2025, 7, 3, 8, 0, 0)\<close>, 2025-07-03T08:00:00: the time-extraction prompt
  says "The current time is 2025-07-03T08:00:00." after the caller's message, whatever the
  clock shows. In every invocation that reaches the time step (an address was obtained and
  validated) the start time of the outage is what the model answers to exactly this prompt:
  the answer, stripped, is parsed and stored as the outage's start time and reported back;
  an invocation that does not reach the time step resolves no time at all.
\<close>

theorem report_outage_time_reference_is_constant:
  "strftime_iso (Datetime 2025 7 3 8 0 0) = ''2025-07-03T08:00:00'' \<and>
   get_time_extraction_prompt start_time ''2025-07-03T08:00:00'' =
     join_lines
       [''Extract the outage start time from the following message.'',
        ''    The time can be in various formats:'',
        ''    - Exact time (e.g., '' @ quoted ''2:30 PM'' @ '', '' @ quoted ''14:30'' @ '')'',
        ''    - Relative time (e.g., '' @ quoted ''2 hours ago'' @ '', '' @ quoted ''yesterday'' @ '', '' @ quoted ''3 days ago'' @ '')'',
        ''    - Date and time (e.g., '' @ quoted ''June 4, 2025 at 2:30 PM'' @ '')'',
        [],
        ''    Message: '' @ quoted start_time,
        [],
        ''    Respond with ONLY the extracted time in the format (YYYY-MM-DDTHH:MM:SS)  or '' @ quoted ''absent'' @ '' if not found.'',
        ''    For relative times, calculate the actual time based on the current time. The current time is 2025-07-03T08:00:00.'',
        ''    ''] \<and>
   report_outage env start_time state addr address_type =
     (let time_prompt = get_time_extraction_prompt start_time ''2025-07-03T08:00:00''
      in case outage_address env state addr address_type of
           (Raise e, asked) \<Rightarrow> (Inl e, asked)
         | (Return reply, asked) \<Rightarrow> (Inr reply, asked)
         | (Continue address_string, asked) \<Rightarrow>
             (case validate_customer_address env address_string of
                None \<Rightarrow> (Inr ''Please provide a valid address.'', asked)
              | Some (latitude, longitude) \<Rightarrow>
                  (case llm_content env time_prompt of
                     Inl e \<Rightarrow> (Inl e, asked @ [time_prompt])
                   | Inr reply \<Rightarrow>
                       if strip reply = ''absent''
                       then (Inr ''Could not determine the outage start time. Please provide a clear time reference.'',
                             asked @ [time_prompt])
                       else (case datetime_fromisoformat env (strip reply) of
                               None \<Rightarrow> (Inl (ValueError ''Invalid isoformat string''), asked @ [time_prompt])
                             | Some start_time_dt \<Rightarrow>
                                 (case create_outage env
                                         \<lparr>outage_reference_number = ''OUT-'' @ uuid4 env,
                                          outage_name = customer_name state,
                                          outage_account_id = UtilityAgentState.account_id state,
                                          outage_nature = ''Water'',
                                          outage_start_time = start_time_dt,
                                          outage_address = address_string,
                                          outage_latitude = latitude,
                                          outage_longitude = longitude,
                                          outage_scale = ''medium''\<rparr> of
                                    Inl e \<Rightarrow> (Inl e, asked @ [time_prompt])
                                  | Inr reference_number \<Rightarrow>
                                      (Inr (''Reported at '' @ py_str address_string @ ''. Start time: ''
                                            @ datetime_str env start_time_dt @ newline
                                            @ ''Reference number: '' @ reference_number),
                                       asked @ [time_prompt]))))))"
proof -
  have wording: "get_time_extraction_prompt start_time ''2025-07-03T08:00:00'' =
     join_lines
       [''Extract the outage start time from the following message.'',
        ''    The time can be in various formats:'',
        ''    - Exact time (e.g., '' @ quoted ''2:30 PM'' @ '', '' @ quoted ''14:30'' @ '')'',
        ''    - Relative time (e.g., '' @ quoted ''2 hours ago'' @ '', '' @ quoted ''yesterday'' @ '', '' @ quoted ''3 days ago'' @ '')'',
        ''    - Date and time (e.g., '' @ quoted ''June 4, 2025 at 2:30 PM'' @ '')'',
        [],
        ''    Message: '' @ quoted start_time,
        [],
        ''    Respond with ONLY the extracted time in the format (YYYY-MM-DDTHH:MM:SS)  or '' @ quoted ''absent'' @ '' if not found.'',
        ''    For relative times, calculate the actual time based on the current time. The current time is 2025-07-03T08:00:00.'',
        ''    '']"
    by (simp add: get_time_extraction_prompt_def)
  have run: "report_outage env start_time state addr address_type =
     (let time_prompt = get_time_extraction_prompt start_time ''2025-07-03T08:00:00''
      in case outage_address env state addr address_type of
           (Raise e, asked) \<Rightarrow> (Inl e, asked)
         | (Return reply, asked) \<Rightarrow> (Inr reply, asked)
         | (Continue address_string, asked) \<Rightarrow>
             (case validate_customer_address env address_string of
                None \<Rightarrow> (Inr ''Please provide a valid address.'', asked)
              | Some (latitude, longitude) \<Rightarrow>
                  (case llm_content env time_prompt of
                     Inl e \<Rightarrow> (Inl e, asked @ [time_prompt])
                   | Inr reply \<Rightarrow>
                       if strip reply = ''absent''
                       then (Inr ''Could not determine the outage start time. Please provide a clear time reference.'',
                             asked @ [time_prompt])
                       else (case datetime_fromisoformat env (strip reply) of
                               None \<Rightarrow> (Inl (ValueError ''Invalid isoformat string''), asked @ [time_prompt])
                             | Some start_time_dt \<Rightarrow>
                                 (case create_outage env
                                         \<lparr>outage_reference_number = ''OUT-'' @ uuid4 env,
                                          outage_name = customer_name state,
                                          outage_account_id = UtilityAgentState.account_id state,
                                          outage_nature = ''Water'',
                                          outage_start_time = start_time_dt,
                                          outage_address = address_string,
                                          outage_latitude = latitude,
                                          outage_longitude = longitude,
                                          outage_scale = ''medium''\<rparr> of
                                    Inl e \<Rightarrow> (Inl e, asked @ [time_prompt])
                                  | Inr reference_number \<Rightarrow>
                                      (Inr (''Reported at '' @ py_str address_string @ ''. Start time: ''
                                            @ datetime_str env start_time_dt @ newline
                                            @ ''Reference number: '' @ reference_number),
                                       asked @ [time_prompt]))))))"
    unfolding report_outage_def current_time_constant Let_def ..
  from current_time_constant wording run show ?thesis by blast
qed

theorem report_outage_time_reference_is_constant_witness:
  "report_outage outage_demo ''3 hours ago'' caller_state None (Some ''registered'')
     = (Inr (''Reported at 1 Elm St, Lexington, NC 27295, USA. Start time: 2025-07-03 05:00:00''
             @ newline @ ''Reference number: OUT-1234''),
        [get_time_extraction_prompt ''3 hours ago'' ''2025-07-03T08:00:00''])"
proof -
  have addr: "outage_address outage_demo caller_state None (Some ''registered'')
      = (Continue (Some ''1 Elm St, Lexington, NC 27295, USA''), [])"
    by (simp add: outage_address_def caller_state_def verified_thread_def Let_def)
  have answer: "strip '' 2025-07-03T05:00:00 '' = ''2025-07-03T05:00:00''"
    by (simp add: strip_def is_space_def whitespace_code_points_def)
  have model: "llm_content outage_demo (get_time_extraction_prompt ''3 hours ago'' ''2025-07-03T08:00:00'')
      = Inr '' 2025-07-03T05:00:00 ''"
    by (simp add: outage_demo_def)
  have valid: "validate_customer_address outage_demo (Some ''1 Elm St, Lexington, NC 27295, USA'') = Some (35, - 80)"
    by (simp add: outage_demo_def)
  have parsed: "datetime_fromisoformat outage_demo ''2025-07-03T05:00:00'' = Some (minutes 300)"
    by (simp add: outage_demo_def)
  have shown: "datetime_str outage_demo (minutes 300) = ''2025-07-03 05:00:00''"
    by (simp add: outage_demo_def)
  have fresh: "uuid4 outage_demo = ''1234''"
    by (simp add: outage_demo_def)
  have stored: "create_outage outage_demo outage = Inr (outage_reference_number outage)" for outage
    by (simp add: outage_demo_def)
  from report_outage_time_reference_is_constant
         [of "''3 hours ago''" outage_demo caller_state None "Some ''registered''",
          THEN conjunct2, THEN conjunct2]
  show ?thesis
    by (simp add: addr model valid answer parsed shown fresh stored Let_def)
qed

end
